theory Spec2Isabelle
  imports Main "HOL-Library.Sublist"
begin

section \<open>JavaScript strings\<close>

text \<open>
  A JavaScript string is modelled as the list of the bytes of its UTF-8 encoding
  (\<^typ>\<open>string\<close>). The patterns the program searches for and compares with
  (\<open>'503'\<close>, \<open>'LABEL_'\<close>, \<open>'_'\<close>, \<open>'quit'\<close>, \<open>'exit'\<close>, \<open>''\<close>) are ASCII, and
  UTF-8 is self-synchronising, so a search or comparison on the bytes gives the same
  answer as the one on UTF-16 code units.
\<close>

text \<open>\<open>s.includes(p)\<close>: \<open>p\<close> occurs in \<open>s\<close> as a contiguous substring.\<close>

fun str_includes :: "string \<Rightarrow> string \<Rightarrow> bool" where
  "str_includes [] p = (p = [])"
| "str_includes (c # cs) p = (prefix p (c # cs) \<or> str_includes cs p)"

text \<open>
  \<open>s.replace(p, r)\<close> for a string pattern \<open>p\<close>: only the first occurrence is replaced.
  The replacements of the program (\<open>''\<close> and \<open>' '\<close>) contain no \<open>$\<close> pattern.
\<close>

fun replace :: "string \<Rightarrow> string \<Rightarrow> string \<Rightarrow> string" where
  "replace [] p r = (if p = [] then r else [])"
| "replace (c # cs) p r =
     (if prefix p (c # cs) then r @ drop (length p) (c # cs) else c # replace cs p r)"

text \<open>
  The white space and line terminator code points that \<open>trim\<close> removes, in UTF-8:
  U+0009 to U+000D, U+0020, U+00A0, U+1680, U+2000 to U+200A, U+2028, U+2029, U+202F,
  U+205F, U+3000 and U+FEFF.
\<close>

definition WhiteSpace :: "string list" where
  "WhiteSpace =
     [[CHR 0x09], [CHR 0x0A], [CHR 0x0B], [CHR 0x0C], [CHR 0x0D], [CHR 0x20],
      [CHR 0xC2, CHR 0xA0], [CHR 0xE1, CHR 0x9A, CHR 0x80],
      [CHR 0xE2, CHR 0x80, CHR 0x80], [CHR 0xE2, CHR 0x80, CHR 0x81],
      [CHR 0xE2, CHR 0x80, CHR 0x82], [CHR 0xE2, CHR 0x80, CHR 0x83],
      [CHR 0xE2, CHR 0x80, CHR 0x84], [CHR 0xE2, CHR 0x80, CHR 0x85],
      [CHR 0xE2, CHR 0x80, CHR 0x86], [CHR 0xE2, CHR 0x80, CHR 0x87],
      [CHR 0xE2, CHR 0x80, CHR 0x88], [CHR 0xE2, CHR 0x80, CHR 0x89],
      [CHR 0xE2, CHR 0x80, CHR 0x8A], [CHR 0xE2, CHR 0x80, CHR 0xA8],
      [CHR 0xE2, CHR 0x80, CHR 0xA9], [CHR 0xE2, CHR 0x80, CHR 0xAF],
      [CHR 0xE2, CHR 0x81, CHR 0x9F], [CHR 0xE3, CHR 0x80, CHR 0x80],
      [CHR 0xEF, CHR 0xBB, CHR 0xBF]]"

text \<open>The number of bytes of the white space code point a string starts with (0: none).\<close>

definition ws_len :: "string \<Rightarrow> nat" where
  "ws_len s = (case filter (\<lambda>w. prefix w s) WhiteSpace of [] \<Rightarrow> 0 | w # _ \<Rightarrow> length w)"

text \<open>\<open>s.trimStart()\<close>, with fuel for the bytes still to look at.\<close>

fun trimStart_upto :: "nat \<Rightarrow> string \<Rightarrow> string" where
  "trimStart_upto 0 s = s"
| "trimStart_upto (Suc k) s = (if ws_len s = 0 then s else trimStart_upto k (drop (ws_len s) s))"

definition trimStart :: "string \<Rightarrow> string" where
  "trimStart s = trimStart_upto (length s) s"

text \<open>\<open>s.trimEnd()\<close>: the shortest prefix after which only white space follows.\<close>

fun trimEnd :: "string \<Rightarrow> string" where
  "trimEnd [] = []"
| "trimEnd (c # cs) = (if trimStart (c # cs) = [] then [] else c # trimEnd cs)"

definition trim :: "string \<Rightarrow> string" where
  "trim s = trimEnd (trimStart s)"

text \<open>
  \<open>s.toLowerCase()\<close> on the ASCII letters. JavaScript also maps letters outside ASCII,
  and maps none of them to a string of \<open>q\<close>, \<open>u\<close>, \<open>i\<close>, \<open>t\<close>, \<open>e\<close>, \<open>x\<close> alone (the only
  non-ASCII letter with an ASCII lower case is U+212A, to \<open>k\<close>), so the comparisons of
  the result with \<open>'quit'\<close> and \<open>'exit'\<close>, the only use the program makes of it, come out
  the same.
\<close>

definition lower_char :: "char \<Rightarrow> char" where
  "lower_char c =
     (let n = (of_char c :: nat) in if 65 \<le> n \<and> n \<le> 90 then char_of (n + 32) else c)"

definition toLowerCase :: "string \<Rightarrow> string" where
  "toLowerCase s = map lower_char s"

section \<open>JavaScript numbers\<close>

text \<open>
  A Number is an IEEE 754 double. \<open>Fin m e\<close> is the finite double of value \<open>m * 2 ^ e\<close>,
  kept in the form where \<open>m\<close> is odd, or \<open>m = 0\<close> and \<open>e = 0\<close>. Every operation
  computes the exact rational result and rounds it to the nearest double, ties to the even
  significand, as the hardware does. Negative zero is not modelled apart from zero:
  the program only multiplies, \<open>toFixed\<close>s and prints numbers, and all three treat the
  two zeros alike.
\<close>

datatype number = NaN | PosInf | NegInf | Fin int int

text \<open>The number of binary and of decimal digits of a positive integer.\<close>

function bitlen :: "int \<Rightarrow> int" where
  "bitlen n = (if n \<le> 0 then 0 else bitlen (n div 2) + 1)"
  by pat_completeness auto
termination
  by (relation "measure nat") auto

function declen :: "int \<Rightarrow> int" where
  "declen n = (if n \<le> 0 then 0 else declen (n div 10) + 1)"
  by pat_completeness auto
termination
  by (relation "measure nat") auto

function normal :: "int \<Rightarrow> int \<Rightarrow> int \<times> int" where
  "normal m e =
     (if m \<le> 0 then (0, 0) else if even m then normal (m div 2) (e + 1) else (m, e))"
  by pat_completeness auto
termination
  by (relation "measure (\<lambda>(m, e). nat m)") auto

declare bitlen.simps [simp del] declen.simps [simp del] normal.simps [simp del]

text \<open>The fraction \<open>p / (q * b ^ k)\<close> as a pair of integers, for an exponent of either sign.\<close>

definition scale :: "int \<Rightarrow> int \<Rightarrow> int \<Rightarrow> int \<Rightarrow> int \<times> int" where
  "scale b p q k = (if k < 0 then (p * b ^ nat (- k), q) else (p, q * b ^ nat k))"

text \<open>
  The double nearest to \<open>p / q\<close> (with \<open>0 \<le> p\<close> and \<open>0 < q\<close>), as significand and
  exponent, or \<open>None\<close> when it rounds to infinity. The significand has 53 bits; below
  \<open>2 ^ - 1022\<close> the exponent stays at \<open>- 1074\<close> (subnormal numbers).
\<close>

definition round_ratio :: "int \<Rightarrow> int \<Rightarrow> (int \<times> int) option" where
  "round_ratio p q =
     (if p \<le> 0 then Some (0, 0)
      else
        let e0 = bitlen p - bitlen q - 53;
            e1 = (case scale 2 p q e0 of (n, d) \<Rightarrow> if 2 ^ 53 * d \<le> n then e0 + 1 else e0);
            e = max e1 (- 1074);
            m = (case scale 2 p q e of (n, d) \<Rightarrow>
                   if d < 2 * (n mod d) \<or> (2 * (n mod d) = d \<and> odd (n div d))
                   then n div d + 1 else n div d)
        in if 0 \<le> e \<and> 2 ^ 1024 \<le> m * 2 ^ nat e then None else Some (normal m e))"

definition signed :: "bool \<Rightarrow> (int \<times> int) option \<Rightarrow> number" where
  "signed neg r =
     (case r of None \<Rightarrow> (if neg then NegInf else PosInf)
      | Some (m, e) \<Rightarrow> Fin (if neg then - m else m) e)"

text \<open>The Number value of the decimal \<open>d * 10 ^ k\<close> (a numeric literal).\<close>

definition decimal :: "int \<Rightarrow> int \<Rightarrow> number" where
  "decimal d k = signed (d < 0) (case scale 10 \<bar>d\<bar> 1 (- k) of (p, q) \<Rightarrow> round_ratio p q)"

text \<open>\<open>x * y\<close>.\<close>

fun is_neg :: "number \<Rightarrow> bool" where
  "is_neg NegInf = True"
| "is_neg (Fin m e) = (m < 0)"
| "is_neg _ = False"

fun mul :: "number \<Rightarrow> number \<Rightarrow> number" where
  "mul NaN y = NaN"
| "mul x NaN = NaN"
| "mul (Fin m e) (Fin m' e') =
     signed (m * m' < 0) (case scale 2 \<bar>m * m'\<bar> 1 (- (e + e')) of (p, q) \<Rightarrow> round_ratio p q)"
| "mul x y =
     (if x = Fin 0 0 \<or> y = Fin 0 0 then NaN
      else if is_neg x \<noteq> is_neg y then NegInf else PosInf)"

text \<open>The decimal digits of a non-negative integer.\<close>

function digits :: "int \<Rightarrow> string" where
  "digits n =
     (if n < 10 then [''0123456789'' ! nat n]
      else digits (n div 10) @ [''0123456789'' ! nat (n mod 10)])"
  by pat_completeness auto
termination
  by (relation "measure nat") auto

declare digits.simps [simp del]

text \<open>
  \<open>Number::toString\<close> for a positive finite number \<open>p / q\<close>: the digits \<open>s\<close>, their
  number \<open>k\<close> and the position \<open>n\<close> of the decimal point, such that \<open>s * 10 ^ (n - k)\<close>
  rounds to the number and \<open>k\<close> is as small as possible (and then \<open>s\<close> as close to the
  number as possible). \<open>point_pos\<close> is the number of digits before the decimal point.
\<close>

definition point_pos :: "int \<Rightarrow> int \<Rightarrow> int" where
  "point_pos p q =
     (let d = declen p - declen q in
      case scale 10 p q d of (a, b) \<Rightarrow> if b \<le> a then d + 1 else d)"

definition rounds_to :: "int \<Rightarrow> int \<Rightarrow> int \<Rightarrow> int \<Rightarrow> bool" where
  "rounds_to s k p q = (case scale 10 s 1 (- k) of (a, b) \<Rightarrow> round_ratio a b = round_ratio p q)"

definition candidate :: "int \<Rightarrow> int \<Rightarrow> int \<Rightarrow> int \<Rightarrow> int option" where
  "candidate p q n0 k =
     (case scale 10 p q (n0 - k) of (a, b) \<Rightarrow>
        let lo = a div b; hi = lo + 1;
            ok_lo = rounds_to lo (n0 - k) p q;
            ok_hi = (hi < 10 ^ nat k \<and> rounds_to hi (n0 - k) p q)
        in if ok_lo \<and> ok_hi then
             (if 2 * (a mod b) < b \<or> (2 * (a mod b) = b \<and> even lo) then Some lo else Some hi)
           else if ok_lo then Some lo
           else if ok_hi then Some hi
           else None)"

fun shortest :: "nat \<Rightarrow> int \<Rightarrow> int \<Rightarrow> int \<Rightarrow> int \<Rightarrow> int \<times> int" where
  "shortest 0 p q n0 k = (k, fst (scale 10 p q (n0 - k)) div snd (scale 10 p q (n0 - k)))"
| "shortest (Suc fuel) p q n0 k =
     (case candidate p q n0 k of Some s \<Rightarrow> (k, s) | None \<Rightarrow> shortest fuel p q n0 (k + 1))"

text \<open>Seventeen digits identify every double, so the search from one digit ends by then.\<close>

definition nks :: "int \<Rightarrow> int \<Rightarrow> int \<times> int \<times> int" where
  "nks p q =
     (let n0 = point_pos p q in
      if rounds_to 1 n0 p q then (n0 + 1, 1, 1)
      else case shortest 17 p q n0 1 of (k, s) \<Rightarrow> (n0, k, s))"

definition zeros :: "int \<Rightarrow> string" where
  "zeros n = replicate (nat n) CHR ''0''"

definition positive_toString :: "int \<Rightarrow> int \<Rightarrow> string" where
  "positive_toString p q =
     (case nks p q of (n, k, s) \<Rightarrow>
        let ds = digits s in
        if k \<le> n \<and> n \<le> 21 then ds @ zeros (n - k)
        else if 0 < n \<and> n \<le> 21 then take (nat n) ds @ ''.'' @ drop (nat n) ds
        else if - 6 < n \<and> n \<le> 0 then ''0.'' @ zeros (- n) @ ds
        else
          (if k = 1 then ds else take 1 ds @ ''.'' @ drop 1 ds)
          @ ''e'' @ (if n - 1 < 0 then ''-'' else ''+'') @ digits \<bar>n - 1\<bar>)"

fun Number_toString :: "number \<Rightarrow> string" where
  "Number_toString NaN = ''NaN''"
| "Number_toString PosInf = ''Infinity''"
| "Number_toString NegInf = ''-Infinity''"
| "Number_toString (Fin m e) =
     (if m = 0 then ''0''
      else (if m < 0 then ''-'' else [])
           @ (case scale 2 \<bar>m\<bar> 1 (- e) of (p, q) \<Rightarrow> positive_toString p q))"

text \<open>
  \<open>x.toFixed(f)\<close> for \<open>f\<close> from 0 to 100 (the program passes 2): for a finite \<open>x\<close>
  below \<open>10 ^ 21\<close> in magnitude, the integer \<open>n\<close> nearest to \<open>x * 10 ^ f\<close> (the larger
  one of two), printed with \<open>f\<close> digits after the point; otherwise as \<open>toString\<close> does.
\<close>

fun toFixed :: "number \<Rightarrow> nat \<Rightarrow> string" where
  "toFixed (Fin m e) f =
     (case scale 2 \<bar>m\<bar> 1 (- e) of (p, q) \<Rightarrow>
        (if m < 0 then ''-'' else [])
        @ (if 10 ^ 21 * q \<le> p then positive_toString p q
           else
             let n = (2 * p * 10 ^ f + q) div (2 * q);
                 ds = (if n = 0 then ''0'' else digits n);
                 ds = (if length ds \<le> f then replicate (f + 1 - length ds) CHR ''0'' @ ds
                       else ds);
                 k = length ds
             in if f = 0 then ds else take (k - f) ds @ ''.'' @ drop (k - f) ds))"
| "toFixed x f = Number_toString x"

text \<open>
  \<open>StringToNumber\<close>: white space is trimmed; the empty string is \<open>0\<close>; then the string
  is \<open>Infinity\<close> with an optional sign, or an unsigned integer in base 16, 8 or 2 after the
  prefix \<open>0x\<close>, \<open>0o\<close> or \<open>0b\<close>, or a decimal with an optional sign, fraction and exponent;
  anything else is \<open>NaN\<close>.
\<close>

definition digit_val :: "char \<Rightarrow> int" where
  "digit_val c =
     (let n = (of_char c :: int) in
      if 48 \<le> n \<and> n \<le> 57 then n - 48
      else if 97 \<le> n \<and> n \<le> 102 then n - 87
      else if 65 \<le> n \<and> n \<le> 70 then n - 55
      else 16)"

definition is_digit :: "int \<Rightarrow> char \<Rightarrow> bool" where
  "is_digit b c = (digit_val c < b)"

definition parse_int :: "int \<Rightarrow> string \<Rightarrow> int" where
  "parse_int b s = foldl (\<lambda>a c. a * b + digit_val c) 0 s"

definition based :: "int \<Rightarrow> string \<Rightarrow> number" where
  "based b s = (if s \<noteq> [] \<and> list_all (is_digit b) s then decimal (parse_int b s) 0 else NaN)"

definition unsigned_decimal :: "bool \<Rightarrow> string \<Rightarrow> number" where
  "unsigned_decimal neg s =
     (if s = ''Infinity'' then (if neg then NegInf else PosInf)
      else
        let ip = takeWhile (is_digit 10) s; r1 = dropWhile (is_digit 10) s;
            fp = (if r1 \<noteq> [] \<and> hd r1 = CHR ''.'' then takeWhile (is_digit 10) (tl r1) else []);
            r2 = (if r1 \<noteq> [] \<and> hd r1 = CHR ''.'' then dropWhile (is_digit 10) (tl r1) else r1);
            has_exp = (r2 \<noteq> [] \<and> (hd r2 = CHR ''e'' \<or> hd r2 = CHR ''E''));
            r3 = (if has_exp then tl r2 else r2);
            eneg = (has_exp \<and> r3 \<noteq> [] \<and> hd r3 = CHR ''-'');
            ep = (if has_exp \<and> r3 \<noteq> [] \<and> (hd r3 = CHR ''-'' \<or> hd r3 = CHR ''+'')
                  then tl r3 else r3);
            ex = (if has_exp then (if eneg then - parse_int 10 ep else parse_int 10 ep) else 0);
            d = parse_int 10 (ip @ fp);
            v = decimal (if neg then - d else d) (ex - int (length fp))
        in if ip @ fp = [] then NaN
           else if has_exp then (if ep \<noteq> [] \<and> list_all (is_digit 10) ep then v else NaN)
           else if r2 = [] then v
           else NaN)"

definition StringToNumber :: "string \<Rightarrow> number" where
  "StringToNumber str =
     (let s = trim str in
      if s = [] then Fin 0 0
      else if take 2 s = ''0x'' \<or> take 2 s = ''0X'' then based 16 (drop 2 s)
      else if take 2 s = ''0o'' \<or> take 2 s = ''0O'' then based 8 (drop 2 s)
      else if take 2 s = ''0b'' \<or> take 2 s = ''0B'' then based 2 (drop 2 s)
      else if hd s = CHR ''-'' then unsigned_decimal True (tl s)
      else if hd s = CHR ''+'' then unsigned_decimal False (tl s)
      else unsigned_decimal False s)"

section \<open>JSON values\<close>

text \<open>
  What \<open>JSON.parse\<close> produces, and so what axios hands over as \<open>response.data\<close>: the
  decoded body, or the body as a string when it is not JSON. The members of an object are
  listed in the order JavaScript enumerates them, each key once.
\<close>

datatype json =
    JNull
  | JBool bool
  | JNum number
  | JStr string
  | JArr "json list"
  | JObj "(string \<times> json) list"

fun join :: "string \<Rightarrow> string list \<Rightarrow> string" where
  "join sep [] = []"
| "join sep [x] = x"
| "join sep (x # y # ys) = x @ sep @ join sep (y # ys)"

text \<open>\<open>QuoteJSONString\<close>: the escapes of \<open>JSON.stringify\<close>.\<close>

definition quote_char :: "char \<Rightarrow> string" where
  "quote_char c =
     (let n = (of_char c :: nat) in
      if n = 0x22 then [CHR 0x5C, CHR 0x22]
      else if n = 0x5C then [CHR 0x5C, CHR 0x5C]
      else if n = 0x08 then CHR 0x5C # ''b''
      else if n = 0x09 then CHR 0x5C # ''t''
      else if n = 0x0A then CHR 0x5C # ''n''
      else if n = 0x0C then CHR 0x5C # ''f''
      else if n = 0x0D then CHR 0x5C # ''r''
      else if n < 0x20
        then CHR 0x5C # ''u00'' @ [''0123456789abcdef'' ! (n div 16), ''0123456789abcdef'' ! (n mod 16)]
      else [c])"

definition quote :: "string \<Rightarrow> string" where
  "quote s = CHR 0x22 # concat (map quote_char s) @ [CHR 0x22]"

text \<open>
  \<open>JSON.stringify(v, null, gap)\<close> at the indentation \<open>ind\<close>; \<open>gap\<close> is empty for
  \<open>JSON.stringify(v)\<close> and two spaces for \<open>JSON.stringify(v, null, 2)\<close>. A number that
  is not finite is written \<open>null\<close>.
\<close>

fun serialize :: "string \<Rightarrow> string \<Rightarrow> json \<Rightarrow> string"
  and serialize_items :: "string \<Rightarrow> string \<Rightarrow> json list \<Rightarrow> string list"
  and serialize_members :: "string \<Rightarrow> string \<Rightarrow> (string \<times> json) list \<Rightarrow> string list"
where
  "serialize gap ind JNull = ''null''"
| "serialize gap ind (JBool b) = (if b then ''true'' else ''false'')"
| "serialize gap ind (JNum x) = (case x of Fin m e \<Rightarrow> Number_toString x | _ \<Rightarrow> ''null'')"
| "serialize gap ind (JStr s) = quote s"
| "serialize gap ind (JArr xs) =
     (if xs = [] then ''[]''
      else if gap = [] then ''['' @ join '','' (serialize_items gap ind xs) @ '']''
      else ''['' @ [CHR 0x0A] @ ind @ gap
           @ join ('','' @ [CHR 0x0A] @ ind @ gap) (serialize_items gap (ind @ gap) xs)
           @ [CHR 0x0A] @ ind @ '']'')"
| "serialize gap ind (JObj ms) =
     (if ms = [] then ''{}''
      else if gap = [] then ''{'' @ join '','' (serialize_members gap ind ms) @ ''}''
      else ''{'' @ [CHR 0x0A] @ ind @ gap
           @ join ('','' @ [CHR 0x0A] @ ind @ gap) (serialize_members gap (ind @ gap) ms)
           @ [CHR 0x0A] @ ind @ ''}'')"
| "serialize_items gap ind [] = []"
| "serialize_items gap ind (x # xs) = serialize gap ind x # serialize_items gap ind xs"
| "serialize_members gap ind [] = []"
| "serialize_members gap ind ((k, v) # ms) =
     (quote k @ '':'' @ (if gap = [] then [] else '' '') @ serialize gap ind v)
     # serialize_members gap ind ms"

definition JSON_stringify :: "json \<Rightarrow> string" where
  "JSON_stringify v = serialize [] [] v"

definition JSON_stringify2 :: "json \<Rightarrow> string" where
  "JSON_stringify2 v = serialize ''  '' [] v"

section \<open>Property access and conversions\<close>

text \<open>
  The only exception the program can meet is a \<open>TypeError\<close>; it carries the message
  of V8, which \<open>validateToken\<close> prints.
\<close>

datatype js_error = TypeError string

text \<open>
  \<open>v.key\<close> for a key that no built-in prototype defines (the program reads \<open>label\<close>,
  \<open>score\<close> and \<open>name\<close>): \<open>None\<close> is \<open>undefined\<close>, and reading a property of \<open>null\<close>
  throws.
\<close>

fun get_prop :: "json \<Rightarrow> string \<Rightarrow> js_error + json option" where
  "get_prop JNull key =
     Inl (TypeError (''Cannot read properties of null (reading '' @ [CHR 0x27] @ key @ [CHR 0x27] @ '')''))"
| "get_prop (JObj ms) key = Inr (map_of ms key)"
| "get_prop v key = Inr None"

text \<open>
  \<open>ToString\<close>. An array is its elements joined by commas, \<open>null\<close> elements as empty
  strings. An object is \<open>[object Object]\<close>, unless it has a member \<open>toString\<close> of its
  own: that member is not callable, and the conversion throws.
\<close>

fun ToString :: "json \<Rightarrow> js_error + string"
  and ToString_elements :: "json list \<Rightarrow> js_error + string list"
where
  "ToString JNull = Inr ''null''"
| "ToString (JBool b) = Inr (if b then ''true'' else ''false'')"
| "ToString (JNum x) = Inr (Number_toString x)"
| "ToString (JStr s) = Inr s"
| "ToString (JArr xs) =
     (case ToString_elements xs of Inl e \<Rightarrow> Inl e | Inr ss \<Rightarrow> Inr (join '','' ss))"
| "ToString (JObj ms) =
     (if map_of ms ''toString'' \<noteq> None
      then Inl (TypeError ''Cannot convert object to primitive value'')
      else Inr ''[object Object]'')"
| "ToString_elements [] = Inr []"
| "ToString_elements (x # xs) =
     (case (if x = JNull then Inr [] else ToString x) of
        Inl e \<Rightarrow> Inl e
      | Inr s \<Rightarrow> (case ToString_elements xs of Inl e \<Rightarrow> Inl e | Inr ss \<Rightarrow> Inr (s # ss)))"

text \<open>\<open>ToString\<close> and \<open>ToNumber\<close> of a value that may be \<open>undefined\<close>.\<close>

fun ToString_opt :: "json option \<Rightarrow> js_error + string" where
  "ToString_opt None = Inr ''undefined''"
| "ToString_opt (Some v) = ToString v"

fun ToNumber :: "json option \<Rightarrow> js_error + number" where
  "ToNumber None = Inr NaN"
| "ToNumber (Some JNull) = Inr (Fin 0 0)"
| "ToNumber (Some (JBool b)) = Inr (if b then Fin 1 0 else Fin 0 0)"
| "ToNumber (Some (JNum x)) = Inr x"
| "ToNumber (Some (JStr s)) = Inr (StringToNumber s)"
| "ToNumber (Some v) = (case ToString v of Inl e \<Rightarrow> Inl e | Inr s \<Rightarrow> Inr (StringToNumber s))"

section \<open>The environment of the program\<close>

text \<open>
  An HTTP request as axios receives it: \<open>Post url headers body timeout\<close> (the timeout
  in milliseconds) and \<open>Get url headers\<close>.
\<close>

datatype request =
    Post string "(string \<times> string) list" json int
  | Get string "(string \<times> string) list"

text \<open>
  What comes back: a response with its status (a non-negative integer) and decoded
  body, or no response at all (time-out, refused connection, DNS failure), with the
  message of the error.
\<close>

datatype reply = Reply int json | NoReply string

text \<open>
  The network answers the \<open>n\<close>-th request of a run (counted from 0): the same request
  may be answered differently when it is sent again.
\<close>

type_synonym network = "nat \<Rightarrow> request \<Rightarrow> reply"

text \<open>
  What the program does that can be observed, in order: a line on standard output
  (\<open>console.log\<close>) or on standard error (\<open>console.error\<close>), an HTTP request, a pause
  (\<open>setTimeout\<close>, in milliseconds), a prompt for a line (\<open>readline.question\<close>), and the
  error that \<open>main().catch(console.error)\<close> prints.
\<close>

datatype event =
    Stdout string
  | Stderr string
  | Http request
  | Sleep int
  | Question string
  | Uncaught js_error

text \<open>
  A function that can throw returns the events up to its end and \<open>Inr\<close> its result, or
  \<open>Inl\<close> the error thrown.
\<close>

definition after :: "event list \<Rightarrow> event list \<times> 'a \<Rightarrow> event list \<times> 'a" where
  "after evs p = (evs @ fst p, snd p)"

definition requests :: "event list \<Rightarrow> request list" where
  "requests evs = concat (map (\<lambda>ev. case ev of Http r \<Rightarrow> [r] | _ \<Rightarrow> []) evs)"

text \<open>The events that are not console output: requests, pauses and prompts.\<close>

fun is_output :: "event \<Rightarrow> bool" where
  "is_output (Stdout s) = True"
| "is_output (Stderr s) = True"
| "is_output (Uncaught e) = True"
| "is_output ev = False"

definition actions :: "event list \<Rightarrow> event list" where
  "actions evs = filter (\<lambda>ev. \<not> is_output ev) evs"

definition stdout :: "event list \<Rightarrow> string list" where
  "stdout evs = concat (map (\<lambda>ev. case ev of Stdout s \<Rightarrow> [s] | _ \<Rightarrow> []) evs)"

definition prompts :: "event list \<Rightarrow> string list" where
  "prompts evs = concat (map (\<lambda>ev. case ev of Question q \<Rightarrow> [q] | _ \<Rightarrow> []) evs)"

text \<open>
  axios with its default \<open>validateStatus\<close>: the promise resolves with the body for a
  status from 200 to 299, and rejects otherwise with an error that carries the response
  (\<open>error.response\<close>) if there was one, and a message (\<open>error.message\<close>).
\<close>

datatype axios_result = Resolved json | Rejected "(int \<times> json) option" string

definition axios :: "network \<Rightarrow> nat \<Rightarrow> request \<Rightarrow> axios_result" where
  "axios net n req =
     (case net n req of
        Reply status data \<Rightarrow>
          if 200 \<le> status \<and> status < 300 then Resolved data
          else Rejected (Some (status, data))
                 (''Request failed with status code '' @ digits status)
      | NoReply msg \<Rightarrow> Rejected None msg)"

text \<open>The emoji of the messages, in UTF-8.\<close>

definition arrows :: string where "arrows = [CHR 0xF0, CHR 0x9F, CHR 0x94, CHR 0x84]"
definition magnifier :: string where "magnifier = [CHR 0xF0, CHR 0x9F, CHR 0x94, CHR 0x8D]"
definition check_mark :: string where "check_mark = [CHR 0xE2, CHR 0x9C, CHR 0x85]"
definition bar_chart :: string where "bar_chart = [CHR 0xF0, CHR 0x9F, CHR 0x93, CHR 0x8A]"
definition cross_mark :: string where "cross_mark = [CHR 0xE2, CHR 0x9D, CHR 0x8C]"
definition hourglass :: string where "hourglass = [CHR 0xE2, CHR 0x8F, CHR 0xB3]"
definition warning :: string where
  "warning = [CHR 0xE2, CHR 0x9A, CHR 0xA0, CHR 0xEF, CHR 0xB8, CHR 0x8F]"
definition robot :: string where "robot = [CHR 0xF0, CHR 0x9F, CHR 0xA4, CHR 0x96]"
definition padlock :: string where "padlock = [CHR 0xF0, CHR 0x9F, CHR 0x94, CHR 0x90]"
definition test_tube :: string where "test_tube = [CHR 0xF0, CHR 0x9F, CHR 0xA7, CHR 0xAA]"
definition speaking :: string where
  "speaking = [CHR 0xF0, CHR 0x9F, CHR 0x97, CHR 0xA3, CHR 0xEF, CHR 0xB8, CHR 0x8F]"
definition waving :: string where "waving = [CHR 0xF0, CHR 0x9F, CHR 0x91, CHR 0x8B]"

section \<open>The program\<close>

definition MODELS :: "string list" where
  "MODELS =
     [''cardiffnlp/twitter-roberta-base-sentiment-latest'',
      ''distilbert-base-uncased-finetuned-sst-2-english'',
      ''cardiffnlp/twitter-roberta-base-sentiment'',
      ''nlptown/bert-base-multilingual-uncased-sentiment'']"

text \<open>
  \<open>TOKEN\<close> is \<open>process.env.HUGGINGFACE_TOKEN\<close>: a string, or \<open>undefined\<close> (\<open>None\<close>) when
  the variable is not set. \<open>token_text\<close> is how a template literal and \<open>console.log\<close>
  write it.
\<close>

fun token_text :: "string option \<Rightarrow> string" where
  "token_text None = ''undefined''"
| "token_text (Some t) = t"

subsection \<open>testModel\<close>

text \<open>
  The object \<open>testModel\<close> returns: \<open>{success: true, data, model}\<close> is
  \<open>Success data model\<close>, and \<open>{success: false, error, model}\<close> is \<open>Failure error model\<close>.
\<close>

datatype attempt = Success json string | Failure string string

definition inference_request :: "string option \<Rightarrow> string \<Rightarrow> string \<Rightarrow> request" where
  "inference_request TOKEN modelName text =
     Post (''https://api-inference.huggingface.co/models/'' @ modelName)
       [(''Authorization'', ''Bearer '' @ token_text TOKEN),
        (''Content-Type'', ''application/json'')]
       (JObj [(''inputs'', JStr text)])
       30000"

definition testModel :: "network \<Rightarrow> string option \<Rightarrow> nat \<Rightarrow> string \<Rightarrow> string \<Rightarrow> attempt" where
  "testModel net TOKEN n modelName text =
     (case axios net n (inference_request TOKEN modelName text) of
        Resolved data \<Rightarrow> Success data modelName
      | Rejected (Some (status, data)) message \<Rightarrow>
          Failure (digits status @ '': '' @ JSON_stringify data) modelName
      | Rejected None message \<Rightarrow> Failure message modelName)"

subsection \<open>analyzeSentiment\<close>

text \<open>
  \<open>item.label.replace(...)\<close>: calling \<open>replace\<close> on \<open>undefined\<close> or \<open>null\<close> throws, and
  so does calling it on a value that is not a string, which has no such method.
\<close>

fun label_of :: "json option \<Rightarrow> js_error + string" where
  "label_of (Some (JStr s)) = Inr s"
| "label_of None =
     Inl (TypeError (''Cannot read properties of undefined (reading '' @ [CHR 0x27] @ ''replace'' @ [CHR 0x27] @ '')''))"
| "label_of (Some JNull) =
     Inl (TypeError (''Cannot read properties of null (reading '' @ [CHR 0x27] @ ''replace'' @ [CHR 0x27] @ '')''))"
| "label_of (Some v) = Inl (TypeError ''item.label.replace is not a function'')"

text \<open>The body of the \<open>forEach\<close> callback: the line printed for one item, or the error.\<close>

definition item_line :: "json \<Rightarrow> js_error + string" where
  "item_line item =
     (case get_prop item ''label'' of
        Inl e \<Rightarrow> Inl e
      | Inr l \<Rightarrow>
          (case label_of l of
             Inl e \<Rightarrow> Inl e
           | Inr s \<Rightarrow>
               (let label = replace (replace s ''LABEL_'' []) ''_'' '' '' in
                case get_prop item ''score'' of
                  Inl e \<Rightarrow> Inl e
                | Inr sc \<Rightarrow>
                    (case ToNumber sc of
                       Inl e \<Rightarrow> Inl e
                     | Inr score \<Rightarrow>
                         Inr ('' - '' @ label @ '': ''
                              @ toFixed (mul score (decimal 100 0)) 2 @ ''%'')))))"

fun forEach :: "json list \<Rightarrow> event list \<times> (js_error + unit)" where
  "forEach [] = ([], Inr ())"
| "forEach (item # items) =
     (case item_line item of
        Inl e \<Rightarrow> ([], Inl e)
      | Inr line \<Rightarrow> after [Stdout line] (forEach items))"

text \<open>Lines 57 to 72: what is printed for the data of a first attempt that succeeded.\<close>

definition print_result :: "json \<Rightarrow> event list \<times> (js_error + unit)" where
  "print_result rdata =
     (case rdata of
        JArr (data # rest) \<Rightarrow>
          (case data of
             JArr items \<Rightarrow> forEach items
           | _ \<Rightarrow> ([Stdout ('' - Result: '' @ JSON_stringify2 data)], Inr ()))
      | _ \<Rightarrow> ([Stdout ('' - Raw response: '' @ JSON_stringify2 rdata)], Inr ()))"

text \<open>Lines 87 to 95: the same for the data of a retry; the two \<open>else\<close> branches are absent.\<close>

definition print_retry_result :: "json \<Rightarrow> event list \<times> (js_error + unit)" where
  "print_retry_result rdata =
     (case rdata of
        JArr (data # rest) \<Rightarrow>
          (case data of
             JArr items \<Rightarrow> forEach items
           | _ \<Rightarrow> ([], Inr ()))
      | _ \<Rightarrow> ([], Inr ()))"

definition result_header :: "string \<Rightarrow> string" where
  "result_header text =
     [CHR 0x0A] @ bar_chart @ '' Sentiment Result for: '' @ [CHR 0x22] @ text @ [CHR 0x22]"

text \<open>
  The \<open>for\<close> loop of \<open>analyzeSentiment\<close> over the models still to try, and the
  \<open>console.error\<close> that follows the loop when no model is left. \<open>n\<close> is the number of
  requests sent before.
\<close>

fun probe :: "network \<Rightarrow> string option \<Rightarrow> string \<Rightarrow> nat \<Rightarrow> string list
    \<Rightarrow> event list \<times> (js_error + unit)" where
  "probe net TOKEN text n [] =
     ([Stderr (cross_mark
         @ '' All models failed. Please check your internet connection and API token.'')],
      Inr ())"
| "probe net TOKEN text n (model # models) =
     after [Stdout (magnifier @ '' Trying model: '' @ model),
            Http (inference_request TOKEN model text)]
       (case testModel net TOKEN n model text of
          Success rdata m \<Rightarrow>
            after [Stdout (check_mark @ '' Success with model: '' @ model),
                   Stdout (result_header text)]
              (print_result rdata)
        | Failure error m \<Rightarrow>
            after [Stdout (cross_mark @ '' Failed with '' @ model @ '': '' @ error)]
              (if str_includes error ''503'' then
                 after [Stdout (hourglass @ '' Model is loading, waiting 10 seconds...''),
                        Sleep 10000,
                        Http (inference_request TOKEN model text)]
                   (case testModel net TOKEN (n + 1) model text of
                      Success rdata m \<Rightarrow>
                        after [Stdout (check_mark @ '' Success with model after retry: '' @ model),
                               Stdout (result_header text)]
                          (print_retry_result rdata)
                    | Failure error' m \<Rightarrow> probe net TOKEN text (n + 2) models)
               else probe net TOKEN text (n + 1) models))"

definition analyzeSentiment :: "network \<Rightarrow> string option \<Rightarrow> nat \<Rightarrow> string
    \<Rightarrow> event list \<times> (js_error + unit)" where
  "analyzeSentiment net TOKEN n text =
     after [Stdout (arrows @ '' Analyzing sentiment...'')] (probe net TOKEN text n MODELS)"

subsection \<open>validateToken\<close>

definition whoami_request :: "string option \<Rightarrow> request" where
  "whoami_request TOKEN =
     Get ''https://huggingface.co/api/whoami''
       [(''Authorization'', ''Bearer '' @ token_text TOKEN)]"

text \<open>
  The \<open>try\<close> block also catches the \<open>TypeError\<close> of \<open>response.data.name\<close> and of its
  conversion to a string; that error has no \<open>response\<close>, so its message is printed.
\<close>

definition validation_failed :: "event list \<Rightarrow> event list \<times> bool" where
  "validation_failed detail =
     ([Stderr (cross_mark @ '' Token validation failed:'')] @ detail
      @ [Stdout (warning @ '' Proceeding anyway to test the inference API directly...'')],
      True)"

fun message :: "js_error \<Rightarrow> string" where
  "message (TypeError m) = m"

definition validateToken :: "network \<Rightarrow> string option \<Rightarrow> nat \<Rightarrow> event list \<times> bool" where
  "validateToken net TOKEN n =
     after [Http (whoami_request TOKEN)]
       (case axios net n (whoami_request TOKEN) of
          Resolved rdata \<Rightarrow>
            (case get_prop rdata ''name'' of
               Inl e \<Rightarrow> validation_failed [Stderr (''Error: '' @ message e)]
             | Inr name \<Rightarrow>
                 (case ToString_opt name of
                    Inl e \<Rightarrow> validation_failed [Stderr (''Error: '' @ message e)]
                  | Inr s \<Rightarrow> ([Stdout (check_mark @ '' Token valid for user: '' @ s)], True)))
        | Rejected (Some (status, rdata)) msg \<Rightarrow>
            validation_failed
              [Stderr (''Status: '' @ digits status),
               Stderr (''Data: '' @ JSON_stringify rdata)]
        | Rejected None msg \<Rightarrow> validation_failed [Stderr (''Error: '' @ msg)])"

subsection \<open>main\<close>

text \<open>
  The lines the user types are the list \<open>inputs\<close>. When the loop asks for a line and
  none is left, the run so far ends there, waiting (\<open>Waiting\<close>).
\<close>

datatype ending = Returned | Waiting

definition prompt :: string where
  "prompt = [CHR 0x0A] @ speaking @ '' Enter a sentence to analyze sentiment (or ''
     @ [CHR 0x27] @ ''quit'' @ [CHR 0x27] @ '' to exit): ''"

text \<open>The \<open>while (true)\<close> loop of \<open>main\<close>.\<close>

fun interact :: "network \<Rightarrow> string option \<Rightarrow> nat \<Rightarrow> string list
    \<Rightarrow> event list \<times> (js_error + ending)" where
  "interact net TOKEN n [] = ([Question prompt], Inr Waiting)"
| "interact net TOKEN n (input # inputs) =
     after [Question prompt]
       (if toLowerCase input = ''quit'' \<or> toLowerCase input = ''exit''
        then ([Stdout (waving @ '' Goodbye!'')], Inr Returned)
        else if trim input = []
        then after [Stdout (warning @ '' Please enter a valid sentence.'')]
               (interact net TOKEN n inputs)
        else
          case analyzeSentiment net TOKEN n input of
            (evs, Inl e) \<Rightarrow> (evs, Inl e)
          | (evs, Inr u) \<Rightarrow>
              after evs (interact net TOKEN (n + length (requests evs)) inputs))"

definition main :: "network \<Rightarrow> string option \<Rightarrow> string list
    \<Rightarrow> event list \<times> (js_error + ending)" where
  "main net TOKEN inputs =
     after [Stdout (robot @ '' AI Sentiment Analysis Tool''),
            Stdout ''==============================='']
       (if TOKEN = None \<or> TOKEN = Some []
        then ([Stderr (cross_mark @ '' Error: HUGGINGFACE_TOKEN not found in .env file''),
               Stdout ''Please add your Hugging Face token to the .env file:'',
               Stdout ''HUGGINGFACE_TOKEN=your_token_here''],
              Inr Returned)
        else
          after [Stdout (padlock @ '' Validating API token...'')]
            (case validateToken net TOKEN 0 of (evs, isValidToken) \<Rightarrow>
               after evs
                 (if \<not> isValidToken then ([], Inr Returned)
                  else
                    after [Stdout (test_tube @ '' Testing API with a simple sentence...'')]
                      (case analyzeSentiment net TOKEN (length (requests evs)) ''I love this!'' of
                         (evs', Inl e) \<Rightarrow> (evs', Inl e)
                       | (evs', Inr u) \<Rightarrow>
                           after evs'
                             (interact net TOKEN
                                (length (requests evs) + length (requests evs')) inputs)))))"

text \<open>
  The whole script: line 14 prints the token when the module is loaded, then \<open>main()\<close>
  runs, and an error it throws is printed by \<open>console.error\<close>.
\<close>

definition program :: "network \<Rightarrow> string option \<Rightarrow> string list \<Rightarrow> event list" where
  "program net TOKEN inputs =
     Stdout (''token:  '' @ token_text TOKEN)
     # (case main net TOKEN inputs of
          (evs, Inl e) \<Rightarrow> evs @ [Uncaught e]
        | (evs, Inr r) \<Rightarrow> evs)"

section \<open>Example payloads and networks\<close>

text \<open>The classification of the specification's example, \<open>[[{label, score}]]\<close>.\<close>

definition positive_payload :: json where
  "positive_payload =
     JArr [JArr [JObj [(''label'', JStr ''LABEL_POSITIVE''),
                       (''score'', JNum (decimal 987 (- 3)))]]]"

definition unexpected_shape :: json where
  "unexpected_shape = JObj [(''unexpected'', JStr ''shape'')]"

text \<open>Two error bodies: a model that is still loading, and a failure of the model itself.\<close>

definition loading_body :: json where
  "loading_body =
     JObj [(''error'', JStr ''Model is currently loading''),
           (''estimated_time'', JNum (decimal 20 0))]"

definition out_of_memory :: json where
  "out_of_memory =
     JObj [(''error'', JStr ''CUDA out of memory. Tried to allocate 503 MiB'')]"

text \<open>Networks: every request succeeds; the first one fails, the next succeed; all fail.\<close>

definition always_ready :: "json \<Rightarrow> network" where
  "always_ready payload n req = Reply 200 payload"

definition loading_then :: "json \<Rightarrow> network" where
  "loading_then payload n req = (if n = 0 then Reply 503 loading_body else Reply 200 payload)"

definition always_loading :: network where
  "always_loading n req = Reply 503 loading_body"

definition error_500_then :: "json \<Rightarrow> network" where
  "error_500_then payload n req =
     (if n = 0 then Reply 500 out_of_memory else Reply 200 payload)"

definition always_500 :: network where
  "always_500 n req = Reply 500 out_of_memory"

section \<open>Auxiliary facts\<close>

lemma fst_after [simp]: "fst (after evs p) = evs @ fst p"
  by (simp add: after_def)

lemma snd_after [simp]: "snd (after evs p) = snd p"
  by (simp add: after_def)

lemma requests_simps [simp]:
  "requests [] = []"
  "requests (Http r # evs) = r # requests evs"
  "requests (Stdout s # evs) = requests evs"
  "requests (Stderr s # evs) = requests evs"
  "requests (Sleep k # evs) = requests evs"
  "requests (Question q # evs) = requests evs"
  "requests (Uncaught e # evs) = requests evs"
  "requests (evs @ evs') = requests evs @ requests evs'"
  by (simp_all add: requests_def)

lemma actions_simps [simp]:
  "actions [] = []"
  "actions (ev # evs) = (if is_output ev then actions evs else ev # actions evs)"
  "actions (evs @ evs') = actions evs @ actions evs'"
  by (simp_all add: actions_def)

lemma stdout_simps [simp]:
  "stdout [] = []"
  "stdout (Stdout s # evs) = s # stdout evs"
  "stdout (Http r # evs) = stdout evs"
  "stdout (Stderr s # evs) = stdout evs"
  "stdout (Sleep k # evs) = stdout evs"
  "stdout (Question q # evs) = stdout evs"
  "stdout (Uncaught e # evs) = stdout evs"
  "stdout (evs @ evs') = stdout evs @ stdout evs'"
  by (simp_all add: stdout_def)

lemma output_no_actions: "list_all is_output evs \<Longrightarrow> actions evs = []"
  by (induction evs) auto

lemma actions_no_requests: "actions evs = [] \<Longrightarrow> requests evs = []"
  by (induction evs) (auto split: if_splits elim: is_output.elims)

text \<open>Printing a result only writes to the console.\<close>

lemma forEach_output: "list_all is_output (fst (forEach items))"
  by (induction items) (auto split: sum.splits)

lemma print_result_output: "list_all is_output (fst (print_result rdata))"
  by (auto simp: print_result_def forEach_output split: json.splits list.splits)

lemma print_retry_result_output: "list_all is_output (fst (print_retry_result rdata))"
  by (auto simp: print_retry_result_def forEach_output split: json.splits list.splits)

text \<open>The error text of a response with status 503 starts with \<open>503\<close>.\<close>

lemma digits_503: "digits 503 = ''503''"
  by code_simp

lemma includes_prefix: "str_includes (p @ s) p"
  by (cases "p @ s") (simp_all del: prefix_code, metis prefixI)

section \<open>The model prober\<close>

text \<open>
  C1. When the first call to a candidate is answered with status 503, the prober pauses
  for 10 seconds (10000 ms) and sends the same request once more, and these are all the
  requests, pauses and prompts for that candidate. If the second call succeeds, the success
  after retry is reported and the function ends with the printing of the result, so no other
  candidate is called; if it fails too, the loop goes on with the remaining candidates,
  two requests later.
\<close>

theorem retry_once_on_503:
  assumes "net n (inference_request TOKEN model sentence) = Reply 503 body"
  shows "case testModel net TOKEN (n + 1) model sentence of
           Success rdata m \<Rightarrow>
             actions (fst (probe net TOKEN sentence n (model # models))) =
               [Http (inference_request TOKEN model sentence), Sleep 10000,
                Http (inference_request TOKEN model sentence)]
             \<and> Stdout (check_mark @ '' Success with model after retry: '' @ model)
                 \<in> set (fst (probe net TOKEN sentence n (model # models)))
             \<and> snd (probe net TOKEN sentence n (model # models)) = snd (print_retry_result rdata)
         | Failure error m \<Rightarrow>
             actions (fst (probe net TOKEN sentence n (model # models))) =
               [Http (inference_request TOKEN model sentence), Sleep 10000,
                Http (inference_request TOKEN model sentence)]
               @ actions (fst (probe net TOKEN sentence (n + 2) models))
             \<and> snd (probe net TOKEN sentence n (model # models)) =
                 snd (probe net TOKEN sentence (n + 2) models)"
proof -
  have first: "testModel net TOKEN n model sentence =
      Failure (''503'' @ '': '' @ JSON_stringify body) model"
    using assms by (simp add: testModel_def axios_def digits_503)
  have loading: "str_includes (''503'' @ '': '' @ JSON_stringify body) ''503''"
    by (rule includes_prefix)
  show ?thesis
  proof (cases "testModel net TOKEN (n + 1) model sentence")
    case (Success rdata m)
    have quiet: "actions (fst (print_retry_result rdata)) = []"
      by (rule output_no_actions) (rule print_retry_result_output)
    show ?thesis
      using loading Success by (simp add: first quiet del: str_includes.simps)
  next
    case (Failure error m)
    show ?thesis
      using loading Failure by (simp add: first del: str_includes.simps)
  qed
qed

theorem retry_once_on_503_witness:
  "loading_then positive_payload 0 (inference_request (Some ''hf_token'') (MODELS ! 0) ''hello'')
     = Reply 503 loading_body
   \<and> actions (fst (probe (loading_then positive_payload) (Some ''hf_token'') ''hello'' 0 MODELS)) =
       [Http (inference_request (Some ''hf_token'') (MODELS ! 0) ''hello''), Sleep 10000,
        Http (inference_request (Some ''hf_token'') (MODELS ! 0) ''hello'')]
   \<and> always_loading 0 (inference_request (Some ''hf_token'') (MODELS ! 3) ''hello'')
     = Reply 503 loading_body
   \<and> actions (fst (probe always_loading (Some ''hf_token'') ''hello'' 0 [MODELS ! 3])) =
       [Http (inference_request (Some ''hf_token'') (MODELS ! 3) ''hello''), Sleep 10000,
        Http (inference_request (Some ''hf_token'') (MODELS ! 3) ''hello'')]"
  using
    retry_once_on_503 [where net = "loading_then positive_payload" and n = 0
      and TOKEN = "Some ''hf_token''" and model = "MODELS ! 0" and sentence = "''hello''"
      and body = loading_body and models = "tl MODELS"]
    retry_once_on_503 [where net = always_loading and n = 0
      and TOKEN = "Some ''hf_token''" and model = "MODELS ! 3" and sentence = "''hello''"
      and body = loading_body and models = "[]"]
  by (simp add: loading_then_def always_loading_def MODELS_def testModel_def axios_def)

text \<open>
  C3. When the first call to the first candidate of a non-empty list is answered with a
  status from 200 to 299, the prober reports the success, prints the result for the body
  of that response and ends: the one request to that candidate is the only request (and
  there is no pause), whatever candidates follow.
\<close>

theorem first_success_short_circuits:
  assumes "net n (inference_request TOKEN model sentence) = Reply status rdata"
    and "200 \<le> status" and "status < 300"
  shows "probe net TOKEN sentence n (model # models) =
           after [Stdout (magnifier @ '' Trying model: '' @ model),
                  Http (inference_request TOKEN model sentence),
                  Stdout (check_mark @ '' Success with model: '' @ model),
                  Stdout (result_header sentence)]
             (print_result rdata)
         \<and> actions (fst (probe net TOKEN sentence n (model # models))) =
             [Http (inference_request TOKEN model sentence)]"
proof -
  have ok: "testModel net TOKEN n model sentence = Success rdata model"
    using assms by (simp add: testModel_def axios_def)
  have quiet: "actions (fst (print_result rdata)) = []"
    by (rule output_no_actions) (rule print_result_output)
  show ?thesis
    by (simp add: ok quiet after_def)
qed

theorem first_success_short_circuits_witness:
  "always_ready positive_payload 0 (inference_request (Some ''hf_token'') (MODELS ! 0) ''hello'')
     = Reply 200 positive_payload
   \<and> (200 :: int) \<le> 200 \<and> (200 :: int) < 300
   \<and> actions (fst (probe (always_ready positive_payload) (Some ''hf_token'') ''hello'' 0 MODELS)) =
       [Http (inference_request (Some ''hf_token'') (MODELS ! 0) ''hello'')]"
  using
    first_success_short_circuits [where net = "always_ready positive_payload" and n = 0
      and TOKEN = "Some ''hf_token''" and model = "MODELS ! 0" and sentence = "''hello''"
      and status = 200 and rdata = positive_payload and models = "tl MODELS"]
  by (simp add: always_ready_def MODELS_def testModel_def axios_def)

text \<open>
  What decides the retry is the error text: when it does not contain \<open>503\<close>, the loop
  goes on with the next candidate at once, one request later.
\<close>

lemma no_retry_without_503_in_error:
  assumes "testModel net TOKEN n model sentence = Failure error m"
    and "\<not> str_includes error ''503''"
  shows "probe net TOKEN sentence n (model # models) =
           after [Stdout (magnifier @ '' Trying model: '' @ model),
                  Http (inference_request TOKEN model sentence),
                  Stdout (cross_mark @ '' Failed with '' @ model @ '': '' @ error)]
             (probe net TOKEN sentence (n + 1) models)"
  using assms by (simp add: after_def)

text \<open>
  C2 (evaluation at a failing input). The first candidate answers with status 500 and an
  error body that mentions 503 MiB. The error text \<open>500: {"error":"... 503 MiB"}\<close>
  contains \<open>503\<close>, so the prober pauses for 10 seconds and calls the same candidate a
  second time, as it does for a model that is loading.
\<close>

theorem retry_on_500_mentioning_503:
  "error_500_then positive_payload 0
      (inference_request (Some ''hf_token'') (MODELS ! 0) ''hello'')
     = Reply 500 out_of_memory
   \<and> actions (fst (analyzeSentiment (error_500_then positive_payload) (Some ''hf_token'') 0
         ''hello'')) =
       [Http (inference_request (Some ''hf_token'') (MODELS ! 0) ''hello''), Sleep 10000,
        Http (inference_request (Some ''hf_token'') (MODELS ! 0) ''hello'')]"
  by code_simp

text \<open>
  C4 (evaluation at a failing input). Every call is answered with status 500 and the
  error body that mentions 503 MiB. All four candidates fail and the last event is the
  message that all models failed; no first attempt returned status 503, and yet eight
  requests are sent, two to each candidate, not four.
\<close>

theorem exhaustion_call_count_at_500:
  "always_500 n req = Reply 500 out_of_memory
   \<and> requests (fst (analyzeSentiment always_500 (Some ''hf_token'') 0 ''hello'')) =
       [inference_request (Some ''hf_token'') (MODELS ! 0) ''hello'',
        inference_request (Some ''hf_token'') (MODELS ! 0) ''hello'',
        inference_request (Some ''hf_token'') (MODELS ! 1) ''hello'',
        inference_request (Some ''hf_token'') (MODELS ! 1) ''hello'',
        inference_request (Some ''hf_token'') (MODELS ! 2) ''hello'',
        inference_request (Some ''hf_token'') (MODELS ! 2) ''hello'',
        inference_request (Some ''hf_token'') (MODELS ! 3) ''hello'',
        inference_request (Some ''hf_token'') (MODELS ! 3) ''hello'']
   \<and> length MODELS = 4
   \<and> last (fst (analyzeSentiment always_500 (Some ''hf_token'') 0 ''hello'')) =
       Stderr (cross_mark
         @ '' All models failed. Please check your internet connection and API token.'')
   \<and> snd (analyzeSentiment always_500 (Some ''hf_token'') 0 ''hello'') = Inr ()"
proof -
  have reply: "always_500 n req = Reply 500 out_of_memory"
    by (simp add: always_500_def)
  have run: "requests (fst (analyzeSentiment always_500 (Some ''hf_token'') 0 ''hello'')) =
       [inference_request (Some ''hf_token'') (MODELS ! 0) ''hello'',
        inference_request (Some ''hf_token'') (MODELS ! 0) ''hello'',
        inference_request (Some ''hf_token'') (MODELS ! 1) ''hello'',
        inference_request (Some ''hf_token'') (MODELS ! 1) ''hello'',
        inference_request (Some ''hf_token'') (MODELS ! 2) ''hello'',
        inference_request (Some ''hf_token'') (MODELS ! 2) ''hello'',
        inference_request (Some ''hf_token'') (MODELS ! 3) ''hello'',
        inference_request (Some ''hf_token'') (MODELS ! 3) ''hello'']
   \<and> length MODELS = 4
   \<and> last (fst (analyzeSentiment always_500 (Some ''hf_token'') 0 ''hello'')) =
       Stderr (cross_mark
         @ '' All models failed. Please check your internet connection and API token.'')
   \<and> snd (analyzeSentiment always_500 (Some ''hf_token'') 0 ''hello'') = Inr ()"
    by code_simp
  show ?thesis
    by (rule conjI [OF reply run])
qed

section \<open>The result formatter\<close>

text \<open>
  C5 (evaluation at failing inputs). A model that was loading answers the retry with the
  object \<open>{"unexpected":"shape"}\<close>: after the header of the result nothing is printed,
  where the branch for a first attempt prints the object as indented JSON. And when the
  first element of the payload is an array whose item has no \<open>label\<close>, the branch for a
  first attempt throws a \<open>TypeError\<close>.
\<close>

theorem formatter_on_unexpected_shape:
  "fst (analyzeSentiment (loading_then unexpected_shape) (Some ''hf_token'') 0 ''hello'') =
     [Stdout (arrows @ '' Analyzing sentiment...''),
      Stdout (magnifier @ '' Trying model: '' @ MODELS ! 0),
      Http (inference_request (Some ''hf_token'') (MODELS ! 0) ''hello''),
      Stdout (cross_mark @ '' Failed with '' @ MODELS ! 0 @ '': 503: ''
              @ JSON_stringify loading_body),
      Stdout (hourglass @ '' Model is loading, waiting 10 seconds...''),
      Sleep 10000,
      Http (inference_request (Some ''hf_token'') (MODELS ! 0) ''hello''),
      Stdout (check_mark @ '' Success with model after retry: '' @ MODELS ! 0),
      Stdout (result_header ''hello'')]
   \<and> print_retry_result unexpected_shape = ([], Inr ())
   \<and> print_result unexpected_shape =
       ([Stdout ('' - Raw response: '' @ JSON_stringify2 unexpected_shape)], Inr ())
   \<and> print_result (JArr [JArr [unexpected_shape]]) =
       ([], Inl (TypeError (''Cannot read properties of undefined (reading ''
                            @ [CHR 0x27] @ ''replace'' @ [CHR 0x27] @ '')'')))"
  by code_simp



section \<open>The command line\<close>

lemma prompts_simps [simp]:
  "prompts [] = []"
  "prompts (Question q # evs) = q # prompts evs"
  "prompts (Stdout s # evs) = prompts evs"
  "prompts (Stderr s # evs) = prompts evs"
  "prompts (Http r # evs) = prompts evs"
  "prompts (Sleep k # evs) = prompts evs"
  "prompts (Uncaught e # evs) = prompts evs"
  "prompts (evs @ evs') = prompts evs @ prompts evs'"
  by (simp_all add: prompts_def)

lemma output_no_prompts: "list_all is_output evs \<Longrightarrow> prompts evs = []"
  by (induction evs) (auto elim: is_output.elims)

text \<open>
  C7. When the token is not set or is the empty string, the run consists of the line that
  prints the token, the banner, the error message on standard error and the two lines
  that tell how to set \<open>HUGGINGFACE_TOKEN\<close> in the \<open>.env\<close> file. There is no request,
  no pause and no prompt, whatever the network and the user's lines are, and \<open>main\<close>
  returns.
\<close>

theorem missing_token_is_fatal:
  assumes "TOKEN = None \<or> TOKEN = Some []"
  shows "program net TOKEN inputs =
           [Stdout (''token:  '' @ token_text TOKEN),
            Stdout (robot @ '' AI Sentiment Analysis Tool''),
            Stdout ''==============================='',
            Stderr (cross_mark @ '' Error: HUGGINGFACE_TOKEN not found in .env file''),
            Stdout ''Please add your Hugging Face token to the .env file:'',
            Stdout ''HUGGINGFACE_TOKEN=your_token_here'']
         \<and> actions (program net TOKEN inputs) = []
         \<and> snd (main net TOKEN inputs) = Inr Returned"
  using assms by (auto simp: program_def main_def after_def)

theorem missing_token_is_fatal_witness:
  "actions (program (always_ready positive_payload) None [''hello'', ''quit'']) = []
   \<and> actions (program (always_ready positive_payload) (Some []) [''hello'', ''quit'']) = []"
  using
    missing_token_is_fatal [where TOKEN = None and net = "always_ready positive_payload"
      and inputs = "[''hello'', ''quit'']"]
    missing_token_is_fatal [where TOKEN = "Some []" and net = "always_ready positive_payload"
      and inputs = "[''hello'', ''quit'']"]
  by simp

text \<open>A line made of white space only is trimmed to the empty string, and is no command.\<close>

lemma ws_len_WhiteSpace: "w \<in> set WhiteSpace \<Longrightarrow> ws_len (w @ s) = length w \<and> w \<noteq> []"
  unfolding ws_len_def WhiteSpace_def
  apply (simp only: list.set insert_iff empty_iff)
  apply (elim disjE)
  apply simp_all
  done

lemma trimStart_upto_WhiteSpace:
  "set ws \<subseteq> set WhiteSpace \<Longrightarrow> length (concat ws) \<le> k \<Longrightarrow> trimStart_upto k (concat ws) = []"
proof (induction ws arbitrary: k)
  case Nil
  then show ?case by (cases k) (simp_all add: ws_len_def WhiteSpace_def)
next
  case (Cons w ws)
  from Cons.prems have w: "ws_len (w @ concat ws) = length w" "w \<noteq> []"
    using ws_len_WhiteSpace [of w "concat ws"] by simp_all
  from w have "0 < length w" by simp
  moreover from Cons.prems have "length w + length (concat ws) \<le> k" by simp
  ultimately have k: "k = Suc (k - 1)" "length (concat ws) \<le> k - 1"
    by arith+
  define k' where "k' = k - 1"
  note k = k [folded k'_def]
  from Cons.prems have "set ws \<subseteq> set WhiteSpace" by simp
  then have IH: "trimStart_upto k' (concat ws) = []"
    using k by (intro Cons.IH) 
  have "trimStart_upto (Suc k') (w @ concat ws) =
      trimStart_upto k' (drop (length w) (w @ concat ws))"
    by (simp only: trimStart_upto.simps w length_0_conv if_False)
  also have "\<dots> = []"
    by (simp only: drop_eq_Nil2 append_eq_conv_conj IH drop_append order_refl drop_all diff_self_eq_0 drop_0 append_Nil)
  finally show ?case
    by (simp only: k concat.simps)
qed

lemma trim_WhiteSpace: "set ws \<subseteq> set WhiteSpace \<Longrightarrow> trim (concat ws) = []"
  by (simp add: trim_def trimStart_def trimStart_upto_WhiteSpace)

lemma toLowerCase_WhiteSpace:
  "w \<in> set WhiteSpace \<Longrightarrow> toLowerCase (w @ s) \<noteq> ''quit'' \<and> toLowerCase (w @ s) \<noteq> ''exit''"
  by (auto simp: WhiteSpace_def toLowerCase_def lower_char_def)

lemma not_a_command:
  "set ws \<subseteq> set WhiteSpace \<Longrightarrow> toLowerCase (concat ws) \<noteq> ''quit'' \<and> toLowerCase (concat ws) \<noteq> ''exit''"
proof (cases ws)
  case Nil
  then show ?thesis by (simp add: toLowerCase_def)
next
  case (Cons w ws')
  assume "set ws \<subseteq> set WhiteSpace"
  with Cons show ?thesis
    using toLowerCase_WhiteSpace [of w "concat ws'"] by simp
qed

text \<open>
  C8. When the line read is a sequence of white space code points (the empty line
  included), the loop prints the prompt and the request for a valid sentence, and goes on
  with the next line with the same number of requests sent: no request is made for it.
\<close>

theorem blank_input_reprompts:
  assumes "set ws \<subseteq> set WhiteSpace"
  shows "interact net TOKEN n (concat ws # inputs) =
           after [Question prompt, Stdout (warning @ '' Please enter a valid sentence.'')]
             (interact net TOKEN n inputs)"
  using not_a_command [OF assms] trim_WhiteSpace [OF assms]
  by (simp add: after_def)

theorem blank_input_reprompts_witness:
  "set ['' '', [CHR 0x09], [CHR 0xE2, CHR 0x80, CHR 0x80]] \<subseteq> set WhiteSpace
   \<and> interact (always_ready positive_payload) (Some ''hf_token'') 1
        (('' '' @ [CHR 0x09, CHR 0xE2, CHR 0x80, CHR 0x80]) # [''quit'']) =
       ([Question prompt, Stdout (warning @ '' Please enter a valid sentence.''),
         Question prompt, Stdout (waving @ '' Goodbye!'')], Inr Returned)"
  using
    blank_input_reprompts [where ws = "['' '', [CHR 0x09], [CHR 0xE2, CHR 0x80, CHR 0x80]]"
      and net = "always_ready positive_payload" and TOKEN = "Some ''hf_token''" and n = 1
      and inputs = "[''quit'']"]
  by (simp add: WhiteSpace_def after_def toLowerCase_def lower_char_def)

text \<open>What \<open>main\<close> writes on standard output first, with and without a token.\<close>

lemma program_stdout:
  "stdout (program net TOKEN inputs) =
     (''token:  '' @ token_text TOKEN) # stdout (fst (main net TOKEN inputs))"
  by (simp add: program_def split: prod.splits sum.splits)

lemma main_stdout_missing:
  "TOKEN = None \<or> TOKEN = Some [] \<Longrightarrow>
   stdout (fst (main net TOKEN inputs)) =
     [robot @ '' AI Sentiment Analysis Tool'', ''==============================='',
      ''Please add your Hugging Face token to the .env file:'',
      ''HUGGINGFACE_TOKEN=your_token_here'']"
  by (auto simp: main_def)

lemma main_stdout_present:
  "TOKEN = Some t \<Longrightarrow> t \<noteq> [] \<Longrightarrow>
   \<exists>rest. stdout (fst (main net TOKEN inputs)) =
     (robot @ '' AI Sentiment Analysis Tool'') # ''===============================''
     # (padlock @ '' Validating API token...'') # rest"
  by (simp add: main_def)

lemma token_text_eq:
  "token_text a = token_text b \<Longrightarrow> a \<noteq> b \<Longrightarrow>
   (a = None \<and> b = Some ''undefined'') \<or> (a = Some ''undefined'' \<and> b = None)"
  by (cases a; cases b) auto

text \<open>
  C9. The first event of every run is the line \<open>token:\<close> followed by the token as it
  is (\<open>undefined\<close> when it is not set), on standard output; and two runs with the same
  network and the same lines but different tokens differ in what they write on standard
  output.
\<close>

theorem token_is_printed_first:
  "(\<exists>rest. program net TOKEN inputs = Stdout (''token:  '' @ token_text TOKEN) # rest)
   \<and> (TOKEN \<noteq> TOKEN' \<longrightarrow>
        stdout (program net TOKEN inputs) \<noteq> stdout (program net TOKEN' inputs))"
proof (intro conjI impI)
  show "\<exists>rest. program net TOKEN inputs = Stdout (''token:  '' @ token_text TOKEN) # rest"
    by (simp add: program_def)
next
  assume differ: "TOKEN \<noteq> TOKEN'"
  have unset: "stdout (fst (main net None inputs)) \<noteq> stdout (fst (main net (Some ''undefined'') inputs))"
    using main_stdout_present [of "Some ''undefined''" "''undefined''" net inputs]
    by (auto simp: main_stdout_missing padlock_def)
  show "stdout (program net TOKEN inputs) \<noteq> stdout (program net TOKEN' inputs)"
  proof (cases "token_text TOKEN = token_text TOKEN'")
    case False
    then show ?thesis by (simp add: program_stdout)
  next
    case True
    from token_text_eq [OF True differ] unset show ?thesis
      by (auto simp: program_stdout)
  qed
qed

theorem token_is_printed_first_witness:
  "Some ''hf_token'' \<noteq> Some ''hf_other''
   \<and> stdout (program always_500 (Some ''hf_token'') [''quit''])
       \<noteq> stdout (program always_500 (Some ''hf_other'') [''quit''])
   \<and> None \<noteq> Some ''undefined''
   \<and> stdout (program always_500 None [''quit''])
       \<noteq> stdout (program always_500 (Some ''undefined'') [''quit''])"
  using
    token_is_printed_first [where TOKEN = "Some ''hf_token''" and TOKEN' = "Some ''hf_other''"
      and net = always_500 and inputs = "[''quit'']"]
    token_is_printed_first [where TOKEN = None and TOKEN' = "Some ''undefined''"
      and net = always_500 and inputs = "[''quit'']"]
  by simp

text \<open>Neither the analysis nor the validation of the token asks the user anything.\<close>

lemma probe_no_prompts: "prompts (fst (probe net TOKEN sentence n models)) = []"
proof (induction models arbitrary: n)
  case Nil
  show ?case by simp
next
  case (Cons model models)
  have "prompts (fst (print_result rdata)) = []" for rdata
    by (rule output_no_prompts) (rule print_result_output)
  moreover have "prompts (fst (print_retry_result rdata)) = []" for rdata
    by (rule output_no_prompts) (rule print_retry_result_output)
  ultimately show ?case
    by (simp add: Cons.IH split: attempt.splits)
qed

lemma validateToken_shape:
  "\<exists>out. validateToken net TOKEN n = (Http (whoami_request TOKEN) # out, True)
     \<and> list_all is_output out"
  by (auto simp: validateToken_def after_def validation_failed_def
      split: axios_result.splits option.splits sum.splits)

lemma main_present:
  assumes "t \<noteq> []"
    and "validateToken net (Some t) 0 = (Http (whoami_request (Some t)) # out, True)"
    and "requests out = []"
  shows "main net (Some t) inputs =
     after ([Stdout (robot @ '' AI Sentiment Analysis Tool''),
             Stdout ''==============================='',
             Stdout (padlock @ '' Validating API token...''),
             Http (whoami_request (Some t))] @ out
            @ [Stdout (test_tube @ '' Testing API with a simple sentence...'')])
       (case analyzeSentiment net (Some t) 1 ''I love this!'' of
          (evs', Inl e) \<Rightarrow> (evs', Inl e)
        | (evs', Inr u) \<Rightarrow>
            after evs' (interact net (Some t) (1 + length (requests evs')) inputs))"
  using assms by (simp add: main_def after_def split: prod.splits sum.splits)

text \<open>
  C10. When the token is set and not empty, the run is a prefix, then the whole analysis
  of the sentence \<open>I love this!\<close>, then the rest. The prefix contains the request that
  validates the token and no other; neither the prefix nor the analysis contains a prompt;
  and the analysis starts its requests with the one to the first model for that sentence.
\<close>

theorem startup_analysis_before_first_prompt:
  assumes "TOKEN = Some t" and "t \<noteq> []"
  shows "\<exists>pre post rest.
           program net TOKEN inputs =
             pre @ fst (analyzeSentiment net TOKEN 1 ''I love this!'') @ post
           \<and> requests pre = [whoami_request TOKEN]
           \<and> prompts (pre @ fst (analyzeSentiment net TOKEN 1 ''I love this!'')) = []
           \<and> requests (fst (analyzeSentiment net TOKEN 1 ''I love this!'')) =
               inference_request TOKEN (MODELS ! 0) ''I love this!'' # rest"
proof -
  obtain out where v: "validateToken net (Some t) 0 = (Http (whoami_request (Some t)) # out, True)"
    and out: "list_all is_output out"
    using validateToken_shape by blast
  from out have quiet: "requests out = []" "prompts out = []"
    by (simp_all add: output_no_prompts output_no_actions actions_no_requests)
  define pre where "pre =
    [Stdout (''token:  '' @ t),
     Stdout (robot @ '' AI Sentiment Analysis Tool''),
     Stdout ''==============================='',
     Stdout (padlock @ '' Validating API token...''),
     Http (whoami_request (Some t))] @ out
    @ [Stdout (test_tube @ '' Testing API with a simple sentence...'')]"
  obtain evs r where analysis: "analyzeSentiment net (Some t) 1 ''I love this!'' = (evs, r)"
    by (cases "analyzeSentiment net (Some t) 1 ''I love this!''")
  have run: "\<exists>post. program net (Some t) inputs = pre @ evs @ post"
    using analysis
    by (cases r)
       (auto simp: program_def main_present [OF assms(2) v quiet(1)] pre_def after_def
          split: prod.splits sum.splits)
  have no_prompt: "prompts (pre @ evs) = []"
    using analysis [symmetric]
    by (simp add: pre_def quiet analyzeSentiment_def probe_no_prompts after_def)
  have first: "\<exists>rest. requests evs =
      inference_request (Some t) (MODELS ! 0) ''I love this!'' # rest"
    using analysis [symmetric]
    by (simp add: analyzeSentiment_def MODELS_def after_def)
  have pre_req: "requests pre = [whoami_request (Some t)]"
    by (simp add: pre_def quiet)
  from run no_prompt first pre_req show ?thesis
    unfolding assms(1) analysis by auto
qed

theorem startup_analysis_before_first_prompt_witness:
  "Some ''hf_token'' = Some ''hf_token'' \<and> ''hf_token'' \<noteq> []
   \<and> (\<exists>pre post rest.
         program (always_ready positive_payload) (Some ''hf_token'') [''quit''] =
           pre @ fst (analyzeSentiment (always_ready positive_payload) (Some ''hf_token'') 1
                        ''I love this!'') @ post
         \<and> requests pre = [whoami_request (Some ''hf_token'')]
         \<and> prompts (pre @ fst (analyzeSentiment (always_ready positive_payload)
                                   (Some ''hf_token'') 1 ''I love this!'')) = []
         \<and> requests (fst (analyzeSentiment (always_ready positive_payload) (Some ''hf_token'') 1
                            ''I love this!'')) =
             inference_request (Some ''hf_token'') (MODELS ! 0) ''I love this!'' # rest)"
  using
    startup_analysis_before_first_prompt [where TOKEN = "Some ''hf_token''" and t = "''hf_token''"
      and net = "always_ready positive_payload" and inputs = "[''quit'']"]
  by simp


end
